theory Spec2Isabelle
  imports Main "HOL-Library.Word"
begin

section \<open>The cache middleware of fiber: \<open>middleware/cache/cache.go\<close>\<close>

text \<open>
  The handler returned by \<open>New\<close> is embedded as a state transformer. One call of the
  handler takes the request context \<open>c\<close>, the manager's contents \<open>m\<close> and the value
  \<open>ts\<close> that \<open>atomic.LoadUint64(&timestamp)\<close> yields for this request, and returns the
  error, the context and the manager's contents it leaves, together with the list of calls it
  made on its collaborators (the manager, the downstream stage \<open>c.Next()\<close>, the exclusion
  predicate \<open>cfg.Next\<close>) and of the cache headers it wrote. The mutex and the goroutine that
  refreshes the timestamp are not modelled: requests are handled one after the other. The
  manager keeps what it stores for the time-to-live it is given; its clock is taken to be the
  timestamp of the request.
\<close>

subsection \<open>Durations, timestamps, bytes\<close>

type_synonym bytes = string
type_synonym u64 = "64 word"

text \<open>\<open>time.Duration\<close> is a signed count of nanoseconds.\<close>

type_synonym duration = int

definition Second :: duration where
  "Second = 1000000000"

text \<open>Go's integer division truncates towards zero.\<close>

definition tdiv :: "int \<Rightarrow> int \<Rightarrow> int" where
  "tdiv a b = sgn a * sgn b * (\<bar>a\<bar> div \<bar>b\<bar>)"

text \<open>
  \<open>int(d.Seconds())\<close>: \<open>Seconds\<close> is the floating-point number \<open>d / Second\<close>, and the
  conversion to \<open>int\<close> drops the fraction. The rounding of the floating-point sum is not
  modelled; for a whole number of seconds there is none.
\<close>

definition Seconds_int :: "duration \<Rightarrow> int" where
  "Seconds_int d = tdiv d Second"

text \<open>
  \<open>uint64(d.Seconds())\<close>. For a negative number of seconds Go leaves the result to the
  implementation; on amd64 the value goes through the signed conversion and wraps around
  modulo \<open>2 ^ 64\<close>, which is what \<open>word_of_int\<close> does.
\<close>

definition Seconds_uint64 :: "duration \<Rightarrow> u64" where
  "Seconds_uint64 d = word_of_int (tdiv d Second)"

subsection \<open>\<open>strconv.FormatUint(x, 10)\<close>\<close>

definition digit_char :: "nat \<Rightarrow> char" where
  "digit_char n = char_of (48 + n)"

function format_nat :: "nat \<Rightarrow> string" where
  "format_nat n = (if n < 10 then [digit_char n] else format_nat (n div 10) @ [digit_char (n mod 10)])"
  by pat_completeness auto
termination
  by (relation "measure id") auto

declare format_nat.simps [simp del]

definition FormatUint :: "u64 \<Rightarrow> string" where
  "FormatUint x = format_nat (unat x)"

subsection \<open>Constants\<close>

definition cacheUnreachable :: string where "cacheUnreachable = ''unreachable''"
definition cacheHit :: string where "cacheHit = ''hit''"
definition cacheMiss :: string where "cacheMiss = ''miss''"

definition MethodGet :: string where "MethodGet = ''GET''"
definition MethodHead :: string where "MethodHead = ''HEAD''"
definition HeaderContentType :: string where "HeaderContentType = ''Content-Type''"
definition HeaderContentEncoding :: string where "HeaderContentEncoding = ''Content-Encoding''"
definition HeaderCacheControl :: string where "HeaderCacheControl = ''Cache-Control''"

text \<open>The keys of the map \<open>ignoreHeaders\<close>; its values are all \<open>nil\<close>.\<close>

definition ignoreHeaders :: "string list" where
  "ignoreHeaders =
     [''Connection'', ''Keep-Alive'', ''Proxy-Authenticate'', ''Proxy-Authorization'',
      ''TE'', ''Trailers'', ''Transfer-Encoding'', ''Upgrade'',
      ''Content-Type'', ''Content-Encoding'']"

subsection \<open>The request context\<close>

text \<open>
  The response as the handler reads and writes it: a body, a status code and the headers,
  one value for each name. A \<open>nil\<close> byte slice and an empty one are both \<open>[]\<close>.
\<close>

text \<open>
  The response takes and looks up a header under the canonical form of its name, as
  \<open>normalizeHeaderKey\<close> of the HTTP library computes it: the first character is put in upper
  case; after that a hyphen is kept and the character that follows it is put in upper case,
  and every other character is put in lower case. Only the letters \<open>a\<close> to \<open>z\<close> and
  \<open>A\<close> to \<open>Z\<close> have another case. So \<open>content-type\<close> and \<open>Content-Type\<close> name the
  same header.
\<close>

definition toUpper :: "char \<Rightarrow> char" where
  "toUpper ch = (if 97 \<le> (of_char ch :: nat) \<and> (of_char ch :: nat) \<le> 122
                 then char_of ((of_char ch :: nat) - 32) else ch)"

definition toLower :: "char \<Rightarrow> char" where
  "toLower ch = (if 65 \<le> (of_char ch :: nat) \<and> (of_char ch :: nat) \<le> 90
                 then char_of ((of_char ch :: nat) + 32) else ch)"

fun normalize_tail :: "string \<Rightarrow> string" where
  "normalize_tail [] = []"
| "normalize_tail [ch] = (if ch = CHR ''-'' then [ch] else [toLower ch])"
| "normalize_tail (ch # d # rest) =
     (if ch = CHR ''-'' then ch # toUpper d # normalize_tail rest
      else toLower ch # normalize_tail (d # rest))"

definition normalizeHeaderKey :: "string \<Rightarrow> string" where
  "normalizeHeaderKey b = (case b of [] \<Rightarrow> [] | ch # rest \<Rightarrow> toUpper ch # normalize_tail rest)"

record response =
  Body :: bytes
  StatusCode :: int
  Header :: "string \<rightharpoonup> bytes"

record ctx =
  Method :: string
  Path :: string
  Response :: response

type_synonym error = string

definition SetBodyRaw :: "response \<Rightarrow> bytes \<Rightarrow> response" where
  "SetBodyRaw r b = r\<lparr>Body := b\<rparr>"

definition SetStatusCode :: "response \<Rightarrow> int \<Rightarrow> response" where
  "SetStatusCode r s = r\<lparr>StatusCode := s\<rparr>"

definition SetBytesV :: "response \<Rightarrow> string \<Rightarrow> bytes \<Rightarrow> response" where
  "SetBytesV r k v = r\<lparr>Header := (Header r)(normalizeHeaderKey k \<mapsto> v)\<rparr>"

definition SetContentTypeBytes :: "response \<Rightarrow> bytes \<Rightarrow> response" where
  "SetContentTypeBytes r v = SetBytesV r HeaderContentType v"

definition Peek :: "response \<Rightarrow> string \<Rightarrow> bytes" where
  "Peek r k = (case Header r (normalizeHeaderKey k) of None \<Rightarrow> [] | Some v \<Rightarrow> v)"

definition ContentType :: "response \<Rightarrow> bytes" where
  "ContentType r = Peek r HeaderContentType"

text \<open>\<open>c.Set(key, val)\<close> sets a header of the response.\<close>

definition Set_header :: "ctx \<Rightarrow> string \<Rightarrow> string \<Rightarrow> ctx" where
  "Set_header c k v = c\<lparr>Response := SetBytesV (Response c) k v\<rparr>"

subsection \<open>The entry and the configuration\<close>

text \<open>The cached unit (\<open>item\<close> in the manager). \<open>headers\<close> is \<open>None\<close> for a \<open>nil\<close> map.\<close>

record entry =
  body :: bytes
  ctype :: bytes
  cencoding :: bytes
  status :: int
  exp :: u64
  headers :: "(string \<rightharpoonup> bytes) option"

definition zero_entry :: entry where
  "zero_entry = \<lparr>body = [], ctype = [], cencoding = [], status = 0, exp = 0, headers = None\<rparr>"

text \<open>
  The configuration after \<open>configDefault\<close>. \<open>Storage\<close> is \<open>cfg.Storage != nil\<close>; what the
  store holds is part of the manager's contents. \<open>Next\<close> and \<open>ExpirationGenerator\<close> are
  \<open>None\<close> for \<open>nil\<close>. The configuration does not change while a handler lives, so the
  pointer to it that \<open>ExpirationGenerator\<close> receives is left out of the callback's arguments.
\<close>

record config =
  Next :: "(ctx \<Rightarrow> bool) option"
  Expiration :: duration
  CacheHeader :: string
  CacheControl :: bool
  KeyGenerator :: "ctx \<Rightarrow> string"
  ExpirationGenerator :: "(ctx \<Rightarrow> duration) option"
  Storage :: bool
  StoreResponseHeaders :: bool

subsection \<open>The manager\<close>

text \<open>
  What the manager holds under a key: the metadata of an entry (\<open>set\<close>) or raw bytes
  (\<open>setRaw\<close>), each with the time at which it was stored and the time-to-live it was stored
  with.
\<close>

datatype item = Meta entry | Raw bytes

type_synonym manager = "string \<rightharpoonup> (item \<times> u64 \<times> duration)"

text \<open>
  Modelled from the spec: the time-to-live of what \<open>set\<close> and \<open>setRaw\<close> store (manager.go
  and the stores are not among the sources). "TTL: time-to-live; duration after which an
  entry is considered stale." What was stored at the time \<open>t0\<close> with the time-to-live
  \<open>ttl\<close> is held at the time \<open>now\<close> as long as less than \<open>ttl\<close> has passed. Times
  are in seconds; the clock of the store is taken to be the timestamp of the request.
\<close>

definition held :: "u64 \<Rightarrow> u64 \<Rightarrow> duration \<Rightarrow> bool" where
  "held now t0 ttl = ((int (unat now) - int (unat t0)) * Second < ttl)"

text \<open>
  Modelled from the spec: by the time of a read the store has dropped what is no longer held
  (manager.go and the stores are not among the sources).
\<close>

definition lapse :: "manager \<Rightarrow> u64 \<Rightarrow> manager" where
  "lapse m now =
     (\<lambda>key. case m key of
               None \<Rightarrow> None
             | Some (it, t0, ttl) \<Rightarrow> if held now t0 ttl then Some (it, t0, ttl) else None)"

text \<open>
  Modelled from the spec: \<open>manager.get\<close> (manager.go is not among the sources).
  "Returns the entry registered under key, or a freshly zeroed pooled Entry if absent.
  Never fails; absence is represented by exp == 0." A key that holds raw bytes holds no entry.
  The second component is the manager after the read.
\<close>

definition manager_get :: "manager \<Rightarrow> string \<Rightarrow> u64 \<Rightarrow> entry \<times> manager" where
  "manager_get m key now =
     ((case lapse m now key of Some (Meta e, t0, ttl) \<Rightarrow> e | _ \<Rightarrow> zero_entry), lapse m now)"

text \<open>
  Modelled from the spec: \<open>manager.getRaw\<close> (manager.go is not among the sources).
  "Fetches a raw byte blob (used for bodies stored separately)."
\<close>

definition manager_getRaw :: "manager \<Rightarrow> string \<Rightarrow> u64 \<Rightarrow> bytes \<times> manager" where
  "manager_getRaw m key now =
     ((case lapse m now key of Some (Raw b, t0, ttl) \<Rightarrow> b | _ \<Rightarrow> []), lapse m now)"

text \<open>
  Modelled from the spec: \<open>manager.set\<close> (manager.go is not among the sources).
  "Persists entry metadata with the given time-to-live."
\<close>

definition manager_set :: "manager \<Rightarrow> string \<Rightarrow> entry \<Rightarrow> duration \<Rightarrow> u64 \<Rightarrow> manager" where
  "manager_set m key e ttl now = m(key \<mapsto> (Meta e, now, ttl))"

text \<open>
  Modelled from the spec: \<open>manager.setRaw\<close> (manager.go is not among the sources).
  "Persists raw bytes under key with TTL."
\<close>

definition manager_setRaw :: "manager \<Rightarrow> string \<Rightarrow> bytes \<Rightarrow> duration \<Rightarrow> u64 \<Rightarrow> manager" where
  "manager_setRaw m key b ttl now = m(key \<mapsto> (Raw b, now, ttl))"

text \<open>
  Modelled from the spec: \<open>manager.delete\<close> (manager.go is not among the sources).
  "Removes an entry."
\<close>

definition manager_delete :: "manager \<Rightarrow> string \<Rightarrow> manager" where
  "manager_delete m key = m(key := None)"

text \<open>
  Modelled from the spec: \<open>manager.release\<close> (manager.go is not among the sources).
  "Returns an Entry to the local reuse pool." The pool is an optimisation that no stored
  value depends on, so the contents of the manager stay as they are.
\<close>

definition manager_release :: "manager \<Rightarrow> entry \<Rightarrow> manager" where
  "manager_release m e = m"

subsection \<open>What a call of the handler leaves\<close>

datatype event =
    MGet string
  | MGetRaw string
  | MSet string entry duration
  | MSetRaw string bytes duration
  | MDelete string
  | MRelease entry
  | CallNext "error option"
  | CallExclude bool
  | ReplayHeaders "string \<rightharpoonup> bytes"
  | SetCacheControl string
  | SetStatus string

record result =
  r_err :: "error option"
  r_ctx :: ctx
  r_mgr :: manager
  r_log :: "event list"

definition logged :: "event list \<Rightarrow> result \<Rightarrow> result" where
  "logged evs r = r\<lparr>r_log := evs @ r_log r\<rparr>"

text \<open>The values the handler gave the cache-status header, in order.\<close>

fun status_sets :: "event list \<Rightarrow> string list" where
  "status_sets [] = []"
| "status_sets (SetStatus v # evs) = v # status_sets evs"
| "status_sets (ev # evs) = status_sets evs"

subsection \<open>The handler\<close>

text \<open>
  The downstream stage \<open>c.Next()\<close>: it returns an error or \<open>nil\<close> and leaves a context.
  The manager is private to the handler, so the downstream stage does not change it.
\<close>

type_synonym downstream = "ctx \<Rightarrow> error option \<times> ctx"

text \<open>
  Lines 157 to 168: \<open>VisitAll\<close> stores every header of the response whose name is not a key
  of \<open>ignoreHeaders\<close> into a fresh map. The names it reads are the canonical ones under
  which the response holds its headers.
\<close>

definition visit_headers :: "response \<Rightarrow> (string \<rightharpoonup> bytes)" where
  "visit_headers r = (\<lambda>keyS. if keyS \<in> set ignoreHeaders then None else Header r keyS)"

text \<open>
  Lines 99 to 129: the entry is served. A name of the entry's header map was read from a
  response, so it is canonical and \<open>SetBytesV\<close> sets the header under this very name.
\<close>

definition serve_hit :: "config \<Rightarrow> u64 \<Rightarrow> string \<Rightarrow> entry \<Rightarrow> manager \<Rightarrow> ctx \<Rightarrow> result" where
  "serve_hit cfg ts key e0 m c =
     (let e = (if Storage cfg
               then e0\<lparr>body := fst (manager_getRaw m (key @ ''_body'') ts)\<rparr> else e0);
          m' = (if Storage cfg then snd (manager_getRaw m (key @ ''_body'') ts) else m);
          r1 = SetBodyRaw (Response c) (body e);
          r2 = SetStatusCode r1 (status e);
          r3 = SetContentTypeBytes r2 (ctype e);
          r4 = (if length (cencoding e) > 0
                then SetBytesV r3 HeaderContentEncoding (cencoding e) else r3);
          r5 = (case headers e of None \<Rightarrow> r4
                | Some hs \<Rightarrow> r4\<lparr>Header := Header r4 ++ hs\<rparr>);
          maxAge = FormatUint (exp e - ts);
          r6 = (if CacheControl cfg
                then SetBytesV r5 HeaderCacheControl (''public, max-age='' @ maxAge) else r5);
          r7 = SetBytesV r6 (CacheHeader cfg) cacheHit
      in \<lparr>r_err = None, r_ctx = c\<lparr>Response := r7\<rparr>, r_mgr = m',
          r_log = (if Storage cfg then [MGetRaw (key @ ''_body'')] else [])
                @ (case headers e of None \<Rightarrow> [] | Some hs \<Rightarrow> [ReplayHeaders hs])
                @ (if CacheControl cfg then [SetCacheControl (''public, max-age='' @ maxAge)] else [])
                @ [SetStatus cacheHit]\<rparr>)"

text \<open>Lines 170 to 176: the expiration of the entry.\<close>

definition expiration_of :: "config \<Rightarrow> ctx \<Rightarrow> u64" where
  "expiration_of cfg c =
     (case ExpirationGenerator cfg of
        None \<Rightarrow> Seconds_uint64 (Expiration cfg)
      | Some g \<Rightarrow> Seconds_uint64 (g c))"

text \<open>Lines 149 to 176: the response is copied into the entry.\<close>

definition fill_entry :: "config \<Rightarrow> u64 \<Rightarrow> entry \<Rightarrow> ctx \<Rightarrow> entry" where
  "fill_entry cfg ts e0 c =
     (let e1 = e0\<lparr>body := Body (Response c),
                  status := StatusCode (Response c),
                  ctype := ContentType (Response c),
                  cencoding := Peek (Response c) HeaderContentEncoding\<rparr>;
          e2 = (if StoreResponseHeaders cfg
                then e1\<lparr>headers := Some (visit_headers (Response c))\<rparr> else e1)
      in e2\<lparr>exp := ts + expiration_of cfg c\<rparr>)"

text \<open>Lines 178 to 193: the entry is stored and the response is marked as a miss.\<close>

definition store_entry :: "config \<Rightarrow> u64 \<Rightarrow> string \<Rightarrow> entry \<Rightarrow> manager \<Rightarrow> ctx \<Rightarrow> result" where
  "store_entry cfg ts key e0 m c =
     (let e = fill_entry cfg ts e0 c
      in if Storage cfg
         then (let m1 = manager_setRaw m (key @ ''_body'') (body e) (Expiration cfg) ts;
                   e' = e\<lparr>body := []\<rparr>;
                   m2 = manager_set m1 key e' (Expiration cfg) ts;
                   m3 = manager_release m2 e'
               in \<lparr>r_err = None, r_ctx = Set_header c (CacheHeader cfg) cacheMiss, r_mgr = m3,
                   r_log = [MSetRaw (key @ ''_body'') (body e) (Expiration cfg),
                            MSet key e' (Expiration cfg), MRelease e', SetStatus cacheMiss]\<rparr>)
         else \<lparr>r_err = None, r_ctx = Set_header c (CacheHeader cfg) cacheMiss,
               r_mgr = manager_set m key e (Expiration cfg) ts,
               r_log = [MSet key e (Expiration cfg), SetStatus cacheMiss]\<rparr>)"

text \<open>Lines 143 to 147: the exclusion predicate, then the entry is stored.\<close>

definition populate :: "config \<Rightarrow> u64 \<Rightarrow> string \<Rightarrow> entry \<Rightarrow> manager \<Rightarrow> ctx \<Rightarrow> result" where
  "populate cfg ts key e0 m c =
     (case Next cfg of
        Some p \<Rightarrow>
          if p c
          then \<lparr>r_err = None, r_ctx = Set_header c (CacheHeader cfg) cacheUnreachable, r_mgr = m,
                r_log = [CallExclude True, SetStatus cacheUnreachable]\<rparr>
          else logged [CallExclude False] (store_entry cfg ts key e0 m c)
      | None \<Rightarrow> store_entry cfg ts key e0 m c)"

text \<open>Lines 134 to 137 and what follows them: the downstream stage runs; its error is returned at once.\<close>

definition miss :: "config \<Rightarrow> downstream \<Rightarrow> u64 \<Rightarrow> string \<Rightarrow> entry \<Rightarrow> manager \<Rightarrow> ctx \<Rightarrow> result" where
  "miss cfg nxt ts key e m c =
     (case nxt c of
        (Some err, c') \<Rightarrow> \<lparr>r_err = Some err, r_ctx = c', r_mgr = m, r_log = [CallNext (Some err)]\<rparr>
      | (None, c') \<Rightarrow> logged [CallNext None] (populate cfg ts key e m c'))"

text \<open>Line 81: the key of a request.\<close>

definition key_of :: "config \<Rightarrow> ctx \<Rightarrow> string" where
  "key_of cfg c = KeyGenerator cfg c @ ''_'' @ Method c"

text \<open>
  Lines 72 to 194: the handler that caches. The manager reads its store at the time of the
  request, for which the model takes the timestamp \<open>ts\<close>.
\<close>

definition handler :: "config \<Rightarrow> downstream \<Rightarrow> u64 \<Rightarrow> manager \<Rightarrow> ctx \<Rightarrow> result" where
  "handler cfg nxt ts m c =
     (if Method c \<noteq> MethodGet \<and> Method c \<noteq> MethodHead
      then (let c1 = Set_header c (CacheHeader cfg) cacheUnreachable
            in case nxt c1 of (err, c2) \<Rightarrow>
                 \<lparr>r_err = err, r_ctx = c2, r_mgr = m,
                  r_log = [SetStatus cacheUnreachable, CallNext err]\<rparr>)
      else (let key = key_of cfg c;
                e = fst (manager_get m key ts);
                m0 = snd (manager_get m key ts)
            in if exp e \<noteq> 0 \<and> ts \<ge> exp e
               then (let m1 = manager_delete m0 key;
                         m2 = (if Storage cfg then manager_delete m1 (key @ ''_body'') else m1)
                     in logged ([MGet key, MDelete key]
                                @ (if Storage cfg then [MDelete (key @ ''_body'')] else []))
                          (miss cfg nxt ts key e m2 c))
               else if exp e \<noteq> 0
               then logged [MGet key] (serve_hit cfg ts key e m0 c)
               else logged [MGet key] (miss cfg nxt ts key e m0 c)))"

text \<open>
  Lines 44 to 53: \<open>New\<close>. With a negative expiration the handler only calls the downstream
  stage.
\<close>

definition New :: "config \<Rightarrow> downstream \<Rightarrow> u64 \<Rightarrow> manager \<Rightarrow> ctx \<Rightarrow> result" where
  "New cfg nxt ts m c =
     (if Seconds_int (Expiration cfg) < 0
      then (case nxt c of (err, c') \<Rightarrow>
              \<lparr>r_err = err, r_ctx = c', r_mgr = m, r_log = [CallNext err]\<rparr>)
      else handler cfg nxt ts m c)"

subsection \<open>A sample configuration and sample requests\<close>

text \<open>
  The default configuration of the middleware (the key is the path, the status header is
  \<open>X-Cache\<close>, one minute of expiration), here with \<open>Cache-Control\<close> and the preservation
  of headers switched on.
\<close>

definition sample_cfg :: config where
  "sample_cfg = \<lparr>Next = None, Expiration = 60 * Second, CacheHeader = ''X-Cache'',
     CacheControl = True, KeyGenerator = Path, ExpirationGenerator = None,
     Storage = False, StoreResponseHeaders = True\<rparr>"

definition sample_get :: ctx where
  "sample_get = \<lparr>Method = ''GET'', Path = ''/a'',
     Response = \<lparr>Body = [], StatusCode = 200, Header = Map.empty\<rparr>\<rparr>"

text \<open>A downstream stage that answers, and one that fails.\<close>

definition sample_next :: downstream where
  "sample_next c = (None, c\<lparr>Response := \<lparr>Body = ''hello'', StatusCode = 201,
     Header = [''Content-Type'' \<mapsto> ''text/plain'', ''X-Custom'' \<mapsto> ''1'',
               ''Connection'' \<mapsto> ''close'']\<rparr>\<rparr>)"

definition sample_fail :: downstream where
  "sample_fail c = (Some ''boom'', c)"

text \<open>
  A manager that holds one entry, for \<open>GET /a\<close>, stored at 1000 with two minutes to live,
  which expires at 1060.
\<close>

definition sample_entry :: entry where
  "sample_entry = \<lparr>body = ''hello'', ctype = ''text/plain'', cencoding = [], status = 201,
     exp = 1060, headers = None\<rparr>"

definition sample_mgr :: manager where
  "sample_mgr = [''/a_GET'' \<mapsto> (Meta sample_entry, 1000, 120 * Second)]"

section \<open>Properties\<close>

subsection \<open>The log and the parts of the handler\<close>

lemma manager_get_snd [simp]: "snd (manager_get m key now) = lapse m now"
  by (simp add: manager_get_def)

lemma manager_getRaw_snd [simp]: "snd (manager_getRaw m key now) = lapse m now"
  by (simp add: manager_getRaw_def)

lemma held_earlier:
  assumes "ts \<le> ts'" and "held ts' t0 ttl"
  shows "held ts t0 ttl"
proof -
  have "uint ts \<le> uint ts'"
    using assms(1) by (simp add: word_le_def)
  then have "(uint ts - uint t0) * Second \<le> (uint ts' - uint t0) * Second"
    by (simp add: Second_def)
  with assms(2) show ?thesis
    by (simp add: held_def)
qed

lemma lapse_lapse:
  assumes "ts \<le> ts'"
  shows "lapse (lapse m ts) ts' = lapse m ts'"
proof
  fix key
  show "lapse (lapse m ts) ts' key = lapse m ts' key"
    using held_earlier [OF assms]
    by (auto simp: lapse_def split: option.split)
qed

lemma lapse_idem [simp]: "lapse (lapse m ts) ts = lapse m ts"
  by (simp add: lapse_lapse)

lemma lapse_subset: "lapse m ts key = m key \<or> lapse m ts key = None"
  by (auto simp: lapse_def split: option.split)

lemma lapse_empty [simp]: "lapse Map.empty now = Map.empty"
  by (rule ext) (simp add: lapse_def)

lemma manager_get_lapse:
  assumes "ts \<le> ts'"
  shows "fst (manager_get (lapse m ts) key ts') = fst (manager_get m key ts')"
  by (simp add: manager_get_def lapse_lapse [OF assms])

lemma manager_get_exp:
  "exp (fst (manager_get m key now)) \<noteq> 0 \<Longrightarrow>
     \<exists>t0 ttl. m key = Some (Meta (fst (manager_get m key now)), t0, ttl) \<and> held now t0 ttl"
  by (auto simp: manager_get_def lapse_def zero_entry_def
      split: option.splits item.splits if_splits)

lemma manager_get_absent_later:
  assumes "exp (fst (manager_get m key ts)) = 0"
  shows "exp (fst (manager_get (lapse m ts) key ts2)) = 0"
  using assms
  by (auto simp: manager_get_def lapse_def zero_entry_def
      split: option.splits item.splits if_splits)

lemma normalize_constants [simp]:
  "normalizeHeaderKey HeaderContentType = HeaderContentType"
  "normalizeHeaderKey HeaderContentEncoding = HeaderContentEncoding"
  "normalizeHeaderKey HeaderCacheControl = HeaderCacheControl"
  by code_simp+

lemma header_constants_distinct [simp]:
  "HeaderContentEncoding \<noteq> HeaderContentType" "HeaderCacheControl \<noteq> HeaderContentType"
  "HeaderContentType \<noteq> HeaderContentEncoding" "HeaderContentType \<noteq> HeaderCacheControl"
  "HeaderCacheControl \<noteq> HeaderContentEncoding" "HeaderContentEncoding \<noteq> HeaderCacheControl"
  by (simp_all add: HeaderContentType_def HeaderContentEncoding_def HeaderCacheControl_def)

lemma r_log_logged [simp]: "r_log (logged evs r) = evs @ r_log r"
  by (simp add: logged_def)

lemma r_err_logged [simp]: "r_err (logged evs r) = r_err r"
  by (simp add: logged_def)

lemma r_ctx_logged [simp]: "r_ctx (logged evs r) = r_ctx r"
  by (simp add: logged_def)

lemma r_mgr_logged [simp]: "r_mgr (logged evs r) = r_mgr r"
  by (simp add: logged_def)

lemma status_sets_append [simp]: "status_sets (xs @ ys) = status_sets xs @ status_sets ys"
  by (induction xs rule: status_sets.induct) simp_all

lemma serve_hit_log:
  "r_log (serve_hit cfg ts key e m c) =
     (if Storage cfg then [MGetRaw (key @ ''_body'')] else [])
     @ (case headers e of None \<Rightarrow> [] | Some hs \<Rightarrow> [ReplayHeaders hs])
     @ (if CacheControl cfg
        then [SetCacheControl (''public, max-age='' @ FormatUint (exp e - ts))] else [])
     @ [SetStatus cacheHit]"
  by (simp add: serve_hit_def Let_def)

lemma serve_hit_status [simp]: "status_sets (r_log (serve_hit cfg ts key e m c)) = [cacheHit]"
  by (simp add: serve_hit_log split: option.split)

lemma serve_hit_no_next [simp]: "CallNext x \<notin> set (r_log (serve_hit cfg ts key e m c))"
  by (simp add: serve_hit_log split: option.split)

lemma serve_hit_err [simp]: "r_err (serve_hit cfg ts key e m c) = None"
  by (simp add: serve_hit_def Let_def)

lemma serve_hit_mgr [simp]:
  "r_mgr (serve_hit cfg ts key e m c) = (if Storage cfg then lapse m ts else m)"
  by (simp add: serve_hit_def Let_def)

lemma serve_hit_header [simp]:
  "Header (Response (r_ctx (serve_hit cfg ts key e m c))) (normalizeHeaderKey (CacheHeader cfg)) = Some cacheHit"
  by (simp add: serve_hit_def Let_def SetBytesV_def)

lemma store_entry_log:
  "r_log (store_entry cfg ts key e0 m c) =
     (if Storage cfg
      then [MSetRaw (key @ ''_body'') (body (fill_entry cfg ts e0 c)) (Expiration cfg),
            MSet key ((fill_entry cfg ts e0 c)\<lparr>body := []\<rparr>) (Expiration cfg),
            MRelease ((fill_entry cfg ts e0 c)\<lparr>body := []\<rparr>), SetStatus cacheMiss]
      else [MSet key (fill_entry cfg ts e0 c) (Expiration cfg), SetStatus cacheMiss])"
  by (simp add: store_entry_def Let_def)

lemma store_entry_status [simp]:
  "status_sets (r_log (store_entry cfg ts key e0 m c)) = [cacheMiss]"
  by (simp add: store_entry_log)

lemma store_entry_err [simp]: "r_err (store_entry cfg ts key e0 m c) = None"
  by (simp add: store_entry_def Let_def)

lemma store_entry_header [simp]:
  "Header (Response (r_ctx (store_entry cfg ts key e0 m c))) (normalizeHeaderKey (CacheHeader cfg)) = Some cacheMiss"
  by (simp add: store_entry_def Let_def Set_header_def SetBytesV_def)

lemma populate_status:
  "status_sets (r_log (populate cfg ts key e0 m c)) =
     [if (case Next cfg of None \<Rightarrow> False | Some p \<Rightarrow> p c) then cacheUnreachable else cacheMiss]"
  by (simp add: populate_def split: option.split)

lemma populate_header:
  "Header (Response (r_ctx (populate cfg ts key e0 m c))) (normalizeHeaderKey (CacheHeader cfg)) =
     Some (if (case Next cfg of None \<Rightarrow> False | Some p \<Rightarrow> p c)
           then cacheUnreachable else cacheMiss)"
  by (simp add: populate_def Set_header_def SetBytesV_def split: option.split)

lemma populate_err [simp]: "r_err (populate cfg ts key e0 m c) = None"
  by (simp add: populate_def split: option.split)

lemma populate_no_hit [simp]: "SetStatus cacheHit \<notin> set (r_log (populate cfg ts key e0 m c))"
  by (simp add: populate_def store_entry_log cacheHit_def cacheMiss_def cacheUnreachable_def
      split: option.split)

lemma miss_log_head:
  "\<exists>rest. r_log (miss cfg nxt ts key e m c) = CallNext (fst (nxt c)) # rest"
  by (simp add: miss_def split: prod.split option.split)

lemma miss_no_hit [simp]: "SetStatus cacheHit \<notin> set (r_log (miss cfg nxt ts key e m c))"
  by (simp add: miss_def split: prod.split option.split)

lemma miss_error:
  assumes "CallNext (Some err) \<in> set (r_log (miss cfg nxt ts key e m c))"
  shows "miss cfg nxt ts key e m c =
           \<lparr>r_err = Some err, r_ctx = snd (nxt c), r_mgr = m, r_log = [CallNext (Some err)]\<rparr>"
  using assms
  by (auto simp: miss_def populate_def store_entry_log split: prod.splits option.splits if_splits)

lemma miss_failed:
  assumes "fst (nxt c) = Some err"
  shows "miss cfg nxt ts key e m c =
           \<lparr>r_err = Some err, r_ctx = snd (nxt c), r_mgr = m, r_log = [CallNext (Some err)]\<rparr>"
  using assms by (cases "nxt c") (simp add: miss_def)

lemma miss_no_error:
  assumes "\<forall>err. CallNext (Some err) \<notin> set (r_log (miss cfg nxt ts key e m c))"
  shows "miss cfg nxt ts key e m c = logged [CallNext None] (populate cfg ts key e m (snd (nxt c)))"
  using assms by (auto simp: miss_def split: prod.splits option.splits)

lemma miss_marks:
  assumes "\<forall>err. CallNext (Some err) \<notin> set (r_log (miss cfg nxt ts key e m c))"
  shows "\<exists>v\<in>{cacheUnreachable, cacheMiss}.
           status_sets (r_log (miss cfg nxt ts key e m c)) = [v]
         \<and> Header (Response (r_ctx (miss cfg nxt ts key e m c))) (normalizeHeaderKey (CacheHeader cfg)) = Some v"
  by (simp add: miss_no_error [OF assms] populate_status populate_header)

subsection \<open>The three branches of the lookup\<close>

text \<open>The manager once the handler has deleted a stale entry (lines 94 to 98).\<close>

lemma handler_stale:
  assumes "Method c = MethodGet \<or> Method c = MethodHead"
    and "exp (fst (manager_get m (key_of cfg c) ts)) \<noteq> 0"
    and "exp (fst (manager_get m (key_of cfg c) ts)) \<le> ts"
  shows "handler cfg nxt ts m c =
     logged ([MGet (key_of cfg c), MDelete (key_of cfg c)]
             @ (if Storage cfg then [MDelete (key_of cfg c @ ''_body'')] else []))
       (miss cfg nxt ts (key_of cfg c) (fst (manager_get m (key_of cfg c) ts))
          (if Storage cfg
           then manager_delete (manager_delete (lapse m ts) (key_of cfg c)) (key_of cfg c @ ''_body'')
           else manager_delete (lapse m ts) (key_of cfg c)) c)"
  using assms by (auto simp: handler_def Let_def)

lemma handler_hit:
  assumes "Method c = MethodGet \<or> Method c = MethodHead"
    and "exp (fst (manager_get m (key_of cfg c) ts)) \<noteq> 0"
    and "ts < exp (fst (manager_get m (key_of cfg c) ts))"
  shows "handler cfg nxt ts m c =
     logged [MGet (key_of cfg c)]
       (serve_hit cfg ts (key_of cfg c) (fst (manager_get m (key_of cfg c) ts)) (lapse m ts) c)"
  using assms by (auto simp: handler_def Let_def)

lemma handler_absent:
  assumes "Method c = MethodGet \<or> Method c = MethodHead"
    and "exp (fst (manager_get m (key_of cfg c) ts)) = 0"
  shows "handler cfg nxt ts m c =
     logged [MGet (key_of cfg c)]
       (miss cfg nxt ts (key_of cfg c) (fst (manager_get m (key_of cfg c) ts)) (lapse m ts) c)"
  using assms by (auto simp: handler_def Let_def)

lemma handler_other:
  assumes "Method c \<noteq> MethodGet" and "Method c \<noteq> MethodHead"
  shows "handler cfg nxt ts m c =
     \<lparr>r_err = fst (nxt (Set_header c (CacheHeader cfg) cacheUnreachable)),
      r_ctx = snd (nxt (Set_header c (CacheHeader cfg) cacheUnreachable)),
      r_mgr = m,
      r_log = [SetStatus cacheUnreachable,
               CallNext (fst (nxt (Set_header c (CacheHeader cfg) cacheUnreachable)))]\<rparr>"
  using assms by (simp add: handler_def Let_def split: prod.split)

lemma New_handler: "\<not> Seconds_int (Expiration cfg) < 0 \<Longrightarrow> New cfg = handler cfg"
  by (rule ext)+ (simp add: New_def)

subsection \<open>What is stored, what is replayed\<close>

lemma fill_entry_fields [simp]:
  "body (fill_entry cfg ts e0 c) = Body (Response c)"
  "status (fill_entry cfg ts e0 c) = StatusCode (Response c)"
  "ctype (fill_entry cfg ts e0 c) = ContentType (Response c)"
  "cencoding (fill_entry cfg ts e0 c) = Peek (Response c) HeaderContentEncoding"
  "exp (fill_entry cfg ts e0 c) = ts + expiration_of cfg c"
  "headers (fill_entry cfg ts e0 c) =
     (if StoreResponseHeaders cfg then Some (visit_headers (Response c)) else headers e0)"
  by (simp_all add: fill_entry_def Let_def)

lemma key_body_neq [simp]: "key @ ''_body'' \<noteq> key" "key \<noteq> key @ ''_body''"
  by simp_all

lemma store_entry_mgr:
  "r_mgr (store_entry cfg ts key e0 m c) key =
     Some (Meta (if Storage cfg then (fill_entry cfg ts e0 c)\<lparr>body := []\<rparr>
                 else fill_entry cfg ts e0 c), ts, Expiration cfg)"
  "Storage cfg \<Longrightarrow> r_mgr (store_entry cfg ts key e0 m c) (key @ ''_body'') =
     Some (Raw (Body (Response c)), ts, Expiration cfg)"
  by (simp_all add: store_entry_def Let_def manager_set_def manager_setRaw_def manager_release_def)

lemma store_entry_ctx [simp]:
  "r_ctx (store_entry cfg ts key e0 m c) = Set_header c (CacheHeader cfg) cacheMiss"
  by (simp add: store_entry_def Let_def)

lemma populate_stores:
  assumes "\<forall>p. Next cfg = Some p \<longrightarrow> \<not> p c"
  shows "r_mgr (populate cfg ts key e0 m c) = r_mgr (store_entry cfg ts key e0 m c)"
    and "r_ctx (populate cfg ts key e0 m c) = Set_header c (CacheHeader cfg) cacheMiss"
    and "status_sets (r_log (populate cfg ts key e0 m c)) = [cacheMiss]"
  using assms by (auto simp: populate_def split: option.split)

lemma serve_hit_response:
  "StatusCode (Response (r_ctx (serve_hit cfg ts key e m c))) = status e"
  "Body (Response (r_ctx (serve_hit cfg ts key e m c))) =
     (if Storage cfg then fst (manager_getRaw m (key @ ''_body'') ts) else body e)"
  by (simp_all add: serve_hit_def Let_def SetBytesV_def SetContentTypeBytes_def SetStatusCode_def
      SetBodyRaw_def split: option.split)

lemma serve_hit_content_type:
  assumes "normalizeHeaderKey (CacheHeader cfg) \<noteq> HeaderContentType"
    and "\<forall>hs. headers e = Some hs \<longrightarrow> hs HeaderContentType = None"
  shows "ContentType (Response (r_ctx (serve_hit cfg ts key e m c))) = ctype e"
  using assms
  by (auto simp: serve_hit_def Let_def SetBytesV_def SetContentTypeBytes_def SetStatusCode_def
      SetBodyRaw_def ContentType_def Peek_def map_add_def split: option.split)

lemma visit_headers_ignored: "k \<in> set ignoreHeaders \<Longrightarrow> visit_headers r k = None"
  by (simp add: visit_headers_def)

lemma content_type_ignored: "HeaderContentType \<in> set ignoreHeaders"
  by (simp add: ignoreHeaders_def HeaderContentType_def)

lemma headers_zero_entry [simp]: "headers zero_entry = None"
  by (simp add: zero_entry_def)

lemma Set_header_fields [simp]:
  "StatusCode (Response (Set_header c k v)) = StatusCode (Response c)"
  "Body (Response (Set_header c k v)) = Body (Response c)"
  "Header (Response (Set_header c k v)) = (Header (Response c))(normalizeHeaderKey k \<mapsto> v)"
  by (simp_all add: Set_header_def SetBytesV_def)

lemma Set_header_content_type:
  "normalizeHeaderKey k \<noteq> HeaderContentType \<Longrightarrow>
     ContentType (Response (Set_header c k v)) = ContentType (Response c)"
  by (simp add: ContentType_def Peek_def)

lemma miss_ok:
  assumes "fst (nxt c) = None"
  shows "miss cfg nxt ts key e m c = logged [CallNext None] (populate cfg ts key e m (snd (nxt c)))"
  using assms by (cases "nxt c") (simp add: miss_def)

lemma miss_MSet:
  assumes "MSet key' e ttl \<in> set (r_log (miss cfg nxt ts key e0 m c))"
  shows "key' = key \<and> ttl = Expiration cfg
       \<and> r_mgr (miss cfg nxt ts key e0 m c) = r_mgr (store_entry cfg ts key e0 m (snd (nxt c)))
       \<and> e = (if Storage cfg then (fill_entry cfg ts e0 (snd (nxt c)))\<lparr>body := []\<rparr>
              else fill_entry cfg ts e0 (snd (nxt c)))"
  using assms
  by (auto simp: miss_def populate_def store_entry_log split: prod.splits option.splits if_splits)

lemma miss_excluded:
  assumes "CallExclude True \<in> set (r_log (miss cfg nxt ts key e0 m c))"
  shows "miss cfg nxt ts key e0 m c =
     \<lparr>r_err = None, r_ctx = Set_header (snd (nxt c)) (CacheHeader cfg) cacheUnreachable, r_mgr = m,
      r_log = [CallNext None, CallExclude True, SetStatus cacheUnreachable]\<rparr>"
  using assms
  by (auto simp: miss_def populate_def store_entry_log logged_def
      split: prod.splits option.splits if_splits)

lemma serve_hit_no_MSet [simp]: "MSet k e' t \<notin> set (r_log (serve_hit cfg ts key e m c))"
  by (simp add: serve_hit_log split: option.split)

lemma serve_hit_no_exclude [simp]: "CallExclude b \<notin> set (r_log (serve_hit cfg ts key e m c))"
  by (simp add: serve_hit_log split: option.split)

lemma serve_hit_replay:
  assumes "headers e = Some hs"
  shows "ReplayHeaders hs \<in> set (r_log (serve_hit cfg ts key e m c))"
  using assms by (simp add: serve_hit_log)

lemma serve_hit_replayed:
  assumes "headers e = Some hs" and "hs k = Some v"
    and "k \<noteq> normalizeHeaderKey (CacheHeader cfg)"
    and "CacheControl cfg \<longrightarrow> k \<noteq> HeaderCacheControl"
  shows "Header (Response (r_ctx (serve_hit cfg ts key e m c))) k = Some v"
  using assms by (simp add: serve_hit_def Let_def SetBytesV_def map_add_def)

lemma New_cases:
  obtains (bypass) "Seconds_int (Expiration cfg) < 0"
      "New cfg nxt ts m c = \<lparr>r_err = fst (nxt c), r_ctx = snd (nxt c), r_mgr = m,
         r_log = [CallNext (fst (nxt c))]\<rparr>"
  | (other) "New cfg nxt ts m c = handler cfg nxt ts m c"
      "Method c \<noteq> MethodGet" "Method c \<noteq> MethodHead"
  | (stale) "New cfg nxt ts m c = handler cfg nxt ts m c"
      "Method c = MethodGet \<or> Method c = MethodHead"
      "exp (fst (manager_get m (key_of cfg c) ts)) \<noteq> 0" "exp (fst (manager_get m (key_of cfg c) ts)) \<le> ts"
  | (hit) "New cfg nxt ts m c = handler cfg nxt ts m c"
      "Method c = MethodGet \<or> Method c = MethodHead"
      "exp (fst (manager_get m (key_of cfg c) ts)) \<noteq> 0" "ts < exp (fst (manager_get m (key_of cfg c) ts))"
  | (absent) "New cfg nxt ts m c = handler cfg nxt ts m c"
      "Method c = MethodGet \<or> Method c = MethodHead"
      "exp (fst (manager_get m (key_of cfg c) ts)) = 0"
proof (cases "Seconds_int (Expiration cfg) < 0")
  case True
  then have "New cfg nxt ts m c = \<lparr>r_err = fst (nxt c), r_ctx = snd (nxt c), r_mgr = m,
         r_log = [CallNext (fst (nxt c))]\<rparr>"
    by (simp add: New_def split: prod.split)
  with True show ?thesis
    by (rule bypass)
next
  case False
  then have N: "New cfg nxt ts m c = handler cfg nxt ts m c"
    by (simp add: New_def)
  show ?thesis
  proof (cases "Method c = MethodGet \<or> Method c = MethodHead")
    case False
    with N show ?thesis
      using other by blast
  next
    case True
    show ?thesis
    proof (cases "exp (fst (manager_get m (key_of cfg c) ts)) = 0")
      case True
      with N \<open>Method c = MethodGet \<or> Method c = MethodHead\<close> show ?thesis
        by (rule absent)
    next
      case nz: False
      show ?thesis
      proof (cases "ts < exp (fst (manager_get m (key_of cfg c) ts))")
        case True
        with N \<open>Method c = MethodGet \<or> Method c = MethodHead\<close> nz show ?thesis
          by (rule hit)
      next
        case False
        then have "exp (fst (manager_get m (key_of cfg c) ts)) \<le> ts"
          by simp
        with N \<open>Method c = MethodGet \<or> Method c = MethodHead\<close> nz show ?thesis
          by (rule stale)
      qed
    qed
  qed
qed

lemma New_MSet:
  assumes "MSet key e ttl \<in> set (r_log (New cfg nxt ts m c))"
  shows "key = key_of cfg c \<and> ttl = Expiration cfg
       \<and> (Method c = MethodGet \<or> Method c = MethodHead)
       \<and> (\<exists>e0 m0. r_mgr (New cfg nxt ts m c) = r_mgr (store_entry cfg ts key e0 m0 (snd (nxt c)))
            \<and> e = (if Storage cfg then (fill_entry cfg ts e0 (snd (nxt c)))\<lparr>body := []\<rparr>
                   else fill_entry cfg ts e0 (snd (nxt c))))"
proof (cases rule: New_cases [where cfg=cfg and nxt=nxt and ts=ts and m=m and c=c])
  case bypass
  with assms show ?thesis by simp
next
  case other
  with assms show ?thesis by (simp add: handler_other)
next
  case stale
  note h = handler_stale [OF stale(2,3,4)]
  let ?m2 = "if Storage cfg
       then manager_delete (manager_delete (lapse m ts) (key_of cfg c)) (key_of cfg c @ ''_body'')
       else manager_delete (lapse m ts) (key_of cfg c)"
  have "MSet key e ttl \<in> set (r_log (miss cfg nxt ts (key_of cfg c) (fst (manager_get m (key_of cfg c) ts)) ?m2 c))"
    using assms by (auto simp: stale(1) h split: if_splits)
  from miss_MSet [OF this] show ?thesis
    using stale(2) by (simp only: stale(1) h r_mgr_logged) blast
next
  case hit
  with assms show ?thesis by (simp add: handler_hit)
next
  case absent
  note h = handler_absent [OF absent(2,3)]
  have "MSet key e ttl \<in> set (r_log (miss cfg nxt ts (key_of cfg c) (fst (manager_get m (key_of cfg c) ts)) (lapse m ts) c))"
    using assms by (auto simp: absent(1) h)
  from miss_MSet [OF this] show ?thesis
    using absent(2) by (simp only: absent(1) h r_mgr_logged) blast
qed

lemma tdiv_neg_seconds: "tdiv (- (int k * Second)) Second = - int k"
  by (cases "k = 0") (simp_all add: tdiv_def Second_def sgn_if)

lemma expiration_of_negative:
  assumes "ExpirationGenerator cfg = Some g" and "g c = - (int k * Second)"
  shows "expiration_of cfg c = - of_nat k"
  using assms by (simp add: expiration_of_def Seconds_uint64_def tdiv_neg_seconds)

lemma handler_not_hit:
  assumes "Method c = MethodGet \<or> Method c = MethodHead"
    and "exp (fst (manager_get m (key_of cfg c) ts)) \<le> ts"
  shows "CallNext (fst (nxt c)) \<in> set (r_log (handler cfg nxt ts m c))
       \<and> SetStatus cacheHit \<notin> set (r_log (handler cfg nxt ts m c))"
proof (cases "exp (fst (manager_get m (key_of cfg c) ts)) = 0")
  case True
  note h = handler_absent [OF assms(1) True]
  obtain rest where
    "r_log (miss cfg nxt ts (key_of cfg c) (fst (manager_get m (key_of cfg c) ts)) (lapse m ts) c) = CallNext (fst (nxt c)) # rest"
    using miss_log_head by blast
  then show ?thesis
    using miss_no_hit [of cfg nxt ts "key_of cfg c" "fst (manager_get m (key_of cfg c) ts)" "lapse m ts" c]
    by (simp add: h)
next
  case False
  note h = handler_stale [OF assms(1) False assms(2)]
  let ?m2 = "if Storage cfg
       then manager_delete (manager_delete (lapse m ts) (key_of cfg c)) (key_of cfg c @ ''_body'')
       else manager_delete (lapse m ts) (key_of cfg c)"
  obtain rest where
    "r_log (miss cfg nxt ts (key_of cfg c) (fst (manager_get m (key_of cfg c) ts)) ?m2 c) = CallNext (fst (nxt c)) # rest"
    using miss_log_head by blast
  then show ?thesis
    using miss_no_hit [of cfg nxt ts "key_of cfg c" "fst (manager_get m (key_of cfg c) ts)" ?m2 c]
    by (simp add: h)
qed

subsection \<open>The sample requests\<close>

lemma Seconds_int_sample: "Seconds_int (60 * Second) = 60"
  by (simp add: Seconds_int_def tdiv_def Second_def)

lemma held_sample: "held 1000 1000 (120 * Second)" "held 1060 1000 (120 * Second)"
  "held 1000 1000 (60 * Second)" "held 1030 1000 (60 * Second)" "\<not> held 1100 1000 (60 * Second)"
  by (simp_all add: held_def Second_def)

lemma sample_get_entry:
  "fst (manager_get sample_mgr (key_of sample_cfg sample_get) 1000) = sample_entry"
  "fst (manager_get sample_mgr (key_of sample_cfg sample_get) 1060) = sample_entry"
  by (simp_all add: manager_get_def lapse_def held_sample sample_mgr_def key_of_def sample_cfg_def
      sample_get_def)

lemma normalize_sample [simp]: "normalizeHeaderKey ''X-Cache'' = ''X-Cache''"
  by code_simp

lemma sample_get_method: "Method sample_get = MethodGet"
  by (simp add: sample_get_def MethodGet_def)

lemma populate_no_next [simp]: "CallNext x \<notin> set (r_log (populate cfg ts key e0 m c))"
  by (simp add: populate_def store_entry_log split: option.split)

lemma serve_hit_cache_control:
  assumes "CacheControl cfg" and "normalizeHeaderKey (CacheHeader cfg) \<noteq> HeaderCacheControl"
  shows "Header (Response (r_ctx (serve_hit cfg ts key e m c))) HeaderCacheControl =
           Some (''public, max-age='' @ FormatUint (exp e - ts))"
  using assms by (simp add: serve_hit_def Let_def SetBytesV_def)

lemma manager_get_empty [simp]: "fst (manager_get Map.empty key now) = zero_entry"
  by (simp add: manager_get_def)

lemma exp_zero_entry [simp]: "exp zero_entry = 0"
  by (simp add: zero_entry_def)

lemma sample_key: "key_of sample_cfg sample_get = ''/a_GET''"
  by (simp add: key_of_def sample_cfg_def sample_get_def)

lemma New_sample: "New sample_cfg = handler sample_cfg"
  by (rule New_handler) (simp add: sample_cfg_def Seconds_int_sample)

lemma sample_fail_run:
  "New sample_cfg sample_fail 1000 Map.empty sample_get =
      \<lparr>r_err = Some ''boom'', r_ctx = sample_get, r_mgr = Map.empty,
       r_log = [MGet ''/a_GET'', CallNext (Some ''boom'')]\<rparr>"
  by (simp add: New_sample handler_absent sample_get_method sample_key miss_def sample_fail_def
      logged_def)

lemma sample_next_calls:
  "CallNext (Some err) \<notin> set (r_log (New sample_cfg sample_next 1000 Map.empty sample_get))"
  by (simp add: New_sample handler_absent sample_get_method sample_key miss_def sample_next_def)

lemma format_nat_60: "format_nat 60 = ''60''"
  by code_simp

lemma FormatUint_60: "FormatUint 60 = ''60''"
  by (simp add: FormatUint_def format_nat_60)

lemma Seconds_uint64_sample: "Seconds_uint64 (60 * Second) = 60"
  by (simp add: Seconds_uint64_def tdiv_def Second_def)

lemma sample_next_fst: "fst (sample_next c) = None"
  by (simp add: sample_next_def)

lemma sample_next_run:
  "New sample_cfg sample_next 1000 Map.empty sample_get =
     logged [MGet ''/a_GET'', CallNext None]
       (store_entry sample_cfg 1000 ''/a_GET'' zero_entry Map.empty (snd (sample_next sample_get)))"
  by (simp add: New_sample handler_absent sample_get_method sample_key miss_ok sample_next_fst
      populate_def logged_def) (simp add: sample_cfg_def)

lemma sample_first_exp:
  "exp (fst (manager_get (r_mgr (New sample_cfg sample_next 1000 Map.empty sample_get)) ''/a_GET''
     1030)) = 1060"
  by (simp add: sample_next_run manager_get_def lapse_def store_entry_mgr expiration_of_def)
     (simp add: sample_cfg_def Seconds_uint64_sample held_sample)

text \<open>
  The store drops what the handler stored once \<open>cfg.Expiration\<close> has passed, also when the
  \<open>ExpirationGenerator\<close> gave the entry a later \<open>exp\<close>: stored at 1000 with one hour from
  the generator and 60 seconds of \<open>cfg.Expiration\<close>, the entry is a hit at 1030 and a miss
  at 1100.
\<close>

lemma store_drops_before_exp:
  "exp (fill_entry (sample_cfg\<lparr>ExpirationGenerator := Some (\<lambda>c. 3600 * Second)\<rparr>) 1000
        zero_entry (snd (sample_next sample_get))) = 4600
   \<and> status_sets (r_log (New (sample_cfg\<lparr>ExpirationGenerator := Some (\<lambda>c. 3600 * Second)\<rparr>)
        sample_next 1030
        (r_mgr (New (sample_cfg\<lparr>ExpirationGenerator := Some (\<lambda>c. 3600 * Second)\<rparr>)
           sample_next 1000 Map.empty sample_get)) sample_get)) = [cacheHit]
   \<and> status_sets (r_log (New (sample_cfg\<lparr>ExpirationGenerator := Some (\<lambda>c. 3600 * Second)\<rparr>)
        sample_next 1100
        (r_mgr (New (sample_cfg\<lparr>ExpirationGenerator := Some (\<lambda>c. 3600 * Second)\<rparr>)
           sample_next 1000 Map.empty sample_get)) sample_get)) = [cacheMiss]"
proof -
  let ?cfg = "sample_cfg\<lparr>ExpirationGenerator := Some (\<lambda>c. 3600 * Second)\<rparr>"
  let ?r = "New ?cfg sample_next 1000 Map.empty sample_get"
  have N: "New ?cfg = handler ?cfg"
    by (rule New_handler) (simp add: sample_cfg_def Seconds_int_sample)
  have k: "key_of ?cfg sample_get = ''/a_GET''"
    by (simp add: key_of_def sample_cfg_def sample_get_def)
  have nx: "Next ?cfg = None" "\<not> Storage ?cfg" "Expiration ?cfg = 60 * Second"
    by (simp_all add: sample_cfg_def)
  have s: "Seconds_uint64 (3600 * Second) = 3600"
    by (simp add: Seconds_uint64_def tdiv_def Second_def)
  have x: "expiration_of ?cfg c = 3600" for c
    by (simp add: expiration_of_def s)
  have R: "?r = logged [MGet ''/a_GET'', CallNext None]
       (store_entry ?cfg 1000 ''/a_GET'' zero_entry Map.empty (snd (sample_next sample_get)))"
    by (simp add: N handler_absent sample_get_method k miss_ok sample_next_fst populate_def nx
        logged_def)
  have g1: "exp (fst (manager_get (r_mgr ?r) ''/a_GET'' 1030)) = 4600"
    by (simp add: R manager_get_def lapse_def store_entry_mgr nx x held_sample)
  have g2: "exp (fst (manager_get (r_mgr ?r) ''/a_GET'' 1100)) = 0"
    by (simp add: R manager_get_def lapse_def store_entry_mgr nx held_sample)
  have a: "status_sets (r_log (New ?cfg sample_next 1030 (r_mgr ?r) sample_get)) = [cacheHit]"
    using handler_hit [of sample_get "r_mgr ?r" ?cfg 1030 sample_next] g1
    by (simp add: N k sample_get_method)
  have b: "status_sets (r_log (New ?cfg sample_next 1100 (r_mgr ?r) sample_get)) = [cacheMiss]"
    using handler_absent [of sample_get "r_mgr ?r" ?cfg 1100 sample_next] g2
    by (simp add: N k sample_get_method miss_ok sample_next_fst populate_status nx)
  show ?thesis
    using a b by (simp add: x)
qed

subsection \<open>The claims\<close>




text \<open>
  Claim C2, as the code has it. A handler built with a negative expiration only calls the
  downstream stage and never sets the cache-status header. A handler built with an expiration
  that is not negative returns, for a \<open>GET\<close> or \<open>HEAD\<close> request whose downstream stage
  returns an error, before it sets the header. On every other request it sets the header
  exactly once, to \<open>unreachable\<close>, \<open>hit\<close> or \<open>miss\<close>, and for a \<open>GET\<close> or \<open>HEAD\<close>
  request the response it leaves carries that value.
\<close>

theorem status_header_set_once:
  "(Seconds_int (Expiration cfg) < 0 \<longrightarrow>
      status_sets (r_log (New cfg nxt ts m c)) = []
    \<and> r_ctx (New cfg nxt ts m c) = snd (nxt c))
   \<and> (\<not> Seconds_int (Expiration cfg) < 0
        \<and> (Method c = MethodGet \<or> Method c = MethodHead)
        \<and> (\<exists>err. CallNext (Some err) \<in> set (r_log (New cfg nxt ts m c))) \<longrightarrow>
      status_sets (r_log (New cfg nxt ts m c)) = []
    \<and> r_ctx (New cfg nxt ts m c) = snd (nxt c))
   \<and> (\<not> Seconds_int (Expiration cfg) < 0
        \<and> (Method c = MethodGet \<or> Method c = MethodHead \<longrightarrow>
             (\<forall>err. CallNext (Some err) \<notin> set (r_log (New cfg nxt ts m c)))) \<longrightarrow>
      (\<exists>v\<in>{cacheUnreachable, cacheHit, cacheMiss}.
           status_sets (r_log (New cfg nxt ts m c)) = [v]
         \<and> (Method c = MethodGet \<or> Method c = MethodHead \<longrightarrow>
              Header (Response (r_ctx (New cfg nxt ts m c))) (normalizeHeaderKey (CacheHeader cfg))
                = Some v)))"
proof (cases "Seconds_int (Expiration cfg) < 0")
  case True
  then have "New cfg nxt ts m c =
      \<lparr>r_err = fst (nxt c), r_ctx = snd (nxt c), r_mgr = m, r_log = [CallNext (fst (nxt c))]\<rparr>"
    by (simp add: New_def split: prod.split)
  with True show ?thesis
    by simp
next
  case False
  let ?key = "key_of cfg c"
  let ?e = "fst (manager_get m ?key ts)"
  let ?goal = "\<exists>v\<in>{cacheUnreachable, cacheHit, cacheMiss}.
           status_sets (r_log (New cfg nxt ts m c)) = [v]
         \<and> (Method c = MethodGet \<or> Method c = MethodHead \<longrightarrow>
              Header (Response (r_ctx (New cfg nxt ts m c))) (normalizeHeaderKey (CacheHeader cfg))
                = Some v)"
  have N: "New cfg nxt ts m c = handler cfg nxt ts m c"
    using False by (simp add: New_def)
  consider (other) "Method c \<noteq> MethodGet" "Method c \<noteq> MethodHead"
    | (stale) "Method c = MethodGet \<or> Method c = MethodHead" "exp ?e \<noteq> 0" "exp ?e \<le> ts"
    | (hit) "Method c = MethodGet \<or> Method c = MethodHead" "exp ?e \<noteq> 0" "ts < exp ?e"
    | (absent) "Method c = MethodGet \<or> Method c = MethodHead" "exp ?e = 0"
    by fastforce
  then show ?thesis
  proof cases
    case other
    then have ?goal
      by (simp add: N handler_other)
    with other False show ?thesis
      by simp
  next
    case stale
    let ?m2 = "if Storage cfg
               then manager_delete (manager_delete (lapse m ts) ?key) (?key @ ''_body'')
               else manager_delete (lapse m ts) ?key"
    note h = handler_stale [OF stale]
    have err: "status_sets (r_log (New cfg nxt ts m c)) = []
        \<and> r_ctx (New cfg nxt ts m c) = snd (nxt c)"
      if "CallNext (Some err) \<in> set (r_log (New cfg nxt ts m c))" for err
    proof -
      have "CallNext (Some err) \<in> set (r_log (miss cfg nxt ts ?key ?e ?m2 c))"
        using that by (auto simp: N h split: if_splits)
      from miss_error [OF this] show ?thesis
        by (simp add: N h)
    qed
    have ok: ?goal
      if "\<forall>err. CallNext (Some err) \<notin> set (r_log (New cfg nxt ts m c))"
    proof -
      have "\<forall>err. CallNext (Some err) \<notin> set (r_log (miss cfg nxt ts ?key ?e ?m2 c))"
        using that by (simp add: N h)
      from miss_marks [OF this] show ?thesis
        by (auto simp: N h)
    qed
    from err ok stale(1) False show ?thesis
      by blast
  next
    case hit
    note h = handler_hit [OF hit]
    have "\<And>err. CallNext (Some err) \<notin> set (r_log (New cfg nxt ts m c))"
      by (simp add: N h)
    moreover have ?goal
      by (simp add: N h)
    ultimately show ?thesis
      using False by blast
  next
    case absent
    note h = handler_absent [OF absent]
    have err: "status_sets (r_log (New cfg nxt ts m c)) = []
        \<and> r_ctx (New cfg nxt ts m c) = snd (nxt c)"
      if "CallNext (Some err) \<in> set (r_log (New cfg nxt ts m c))" for err
    proof -
      have "CallNext (Some err) \<in> set (r_log (miss cfg nxt ts ?key ?e (lapse m ts) c))"
        using that by (auto simp: N h)
      from miss_error [OF this] show ?thesis
        by (simp add: N h)
    qed
    have ok: ?goal
      if "\<forall>err. CallNext (Some err) \<notin> set (r_log (New cfg nxt ts m c))"
    proof -
      have "\<forall>err. CallNext (Some err) \<notin> set (r_log (miss cfg nxt ts ?key ?e (lapse m ts) c))"
        using that by (simp add: N h)
      from miss_marks [OF this] show ?thesis
        by (auto simp: N h)
    qed
    from err ok absent(1) False show ?thesis
      by blast
  qed
qed

theorem status_header_set_once_witness:
  "Seconds_int (Expiration (sample_cfg\<lparr>Expiration := - Second\<rparr>)) < 0
   \<and> status_sets (r_log (New (sample_cfg\<lparr>Expiration := - Second\<rparr>) sample_next 1000 Map.empty
        sample_get)) = []
   \<and> \<not> Seconds_int (Expiration sample_cfg) < 0
   \<and> Method sample_get = MethodGet
   \<and> CallNext (Some ''boom'') \<in> set (r_log (New sample_cfg sample_fail 1000 Map.empty sample_get))
   \<and> status_sets (r_log (New sample_cfg sample_fail 1000 Map.empty sample_get)) = []
   \<and> (\<forall>err. CallNext (Some err)
         \<notin> set (r_log (New sample_cfg sample_next 1000 Map.empty sample_get)))
   \<and> (\<exists>v\<in>{cacheUnreachable, cacheHit, cacheMiss}.
         status_sets (r_log (New sample_cfg sample_next 1000 Map.empty sample_get)) = [v]
       \<and> Header (Response (r_ctx (New sample_cfg sample_next 1000 Map.empty sample_get)))
           ''X-Cache'' = Some v)"
proof -
  have g1: "Seconds_int (Expiration (sample_cfg\<lparr>Expiration := - Second\<rparr>)) < 0"
    by (simp add: Seconds_int_def tdiv_def Second_def)
  have h1: "\<not> Seconds_int (Expiration sample_cfg) < 0"
    by (simp add: sample_cfg_def Seconds_int_sample)
  have h2: "Method sample_get = MethodGet"
    by (rule sample_get_method)
  have g2: "CallNext (Some ''boom'')
      \<in> set (r_log (New sample_cfg sample_fail 1000 Map.empty sample_get))"
    by (simp add: sample_fail_run)
  have g3: "\<forall>err. CallNext (Some err)
      \<notin> set (r_log (New sample_cfg sample_next 1000 Map.empty sample_get))"
    by (simp add: sample_next_calls)
  have n: "normalizeHeaderKey (CacheHeader sample_cfg) = ''X-Cache''"
    by (simp add: sample_cfg_def)
  have a: "status_sets (r_log (New (sample_cfg\<lparr>Expiration := - Second\<rparr>) sample_next 1000 Map.empty
        sample_get)) = []"
    using status_header_set_once
      [of "sample_cfg\<lparr>Expiration := - Second\<rparr>" sample_next 1000 Map.empty sample_get] g1
    by blast
  have b: "status_sets (r_log (New sample_cfg sample_fail 1000 Map.empty sample_get)) = []"
    using status_header_set_once [of sample_cfg sample_fail 1000 Map.empty sample_get] h1 h2 g2
    by blast
  have c: "\<exists>v\<in>{cacheUnreachable, cacheHit, cacheMiss}.
         status_sets (r_log (New sample_cfg sample_next 1000 Map.empty sample_get)) = [v]
       \<and> Header (Response (r_ctx (New sample_cfg sample_next 1000 Map.empty sample_get)))
           ''X-Cache'' = Some v"
    using status_header_set_once [of sample_cfg sample_next 1000 Map.empty sample_get] h1 h2 g3
    unfolding n by blast
  from g1 a h1 h2 g2 b g3 c show ?thesis
    by blast
qed

text \<open>
  Claim C2, as the spec states it, fails: with an expiration of minus one second the handler
  sets no cache-status header, and neither does it when the downstream stage of a \<open>GET\<close>
  request returns an error.
\<close>

theorem status_header_not_always_set:
  "status_sets (r_log (New (sample_cfg\<lparr>Expiration := - Second\<rparr>) sample_next 1000 Map.empty
       sample_get)) = []
   \<and> Header (Response (r_ctx (New (sample_cfg\<lparr>Expiration := - Second\<rparr>) sample_next 1000
       Map.empty sample_get))) ''X-Cache'' = None
   \<and> status_sets (r_log (New sample_cfg sample_fail 1000 Map.empty sample_get)) = []
   \<and> Header (Response (r_ctx (New sample_cfg sample_fail 1000 Map.empty sample_get))) ''X-Cache''
       = None"
proof -
  have neg: "Seconds_int (Expiration (sample_cfg\<lparr>Expiration := - Second\<rparr>)) < 0"
    by (simp add: Seconds_int_def tdiv_def Second_def)
  have a: "New (sample_cfg\<lparr>Expiration := - Second\<rparr>) sample_next 1000 Map.empty sample_get =
      \<lparr>r_err = fst (sample_next sample_get), r_ctx = snd (sample_next sample_get),
       r_mgr = Map.empty, r_log = [CallNext (fst (sample_next sample_get))]\<rparr>"
    using neg by (simp add: New_def split: prod.split)
  show ?thesis
    by (simp add: a sample_fail_run) (simp add: sample_next_def sample_get_def)
qed

text \<open>
  Claim C3. With external storage the handler stores the body under the \<open>_body\<close> key, clears
  the body of the entry, stores the entry under the key and releases it, in this order. The
  time-to-live it hands to \<open>setRaw\<close> and \<open>set\<close> is \<open>cfg.Expiration\<close>, also when an
  \<open>ExpirationGenerator\<close> is configured: here the generator answers one hour, the entry gets
  \<open>exp = 1000 + 3600\<close>, and both values are stored with the configured 60 seconds.
\<close>

theorem storage_ttl_ignores_generator:
  "r_log (handler (sample_cfg\<lparr>Storage := True, StoreResponseHeaders := False,
                     ExpirationGenerator := Some (\<lambda>c. 3600 * Second)\<rparr>)
            sample_next 1000 Map.empty sample_get) =
     [MGet ''/a_GET'', CallNext None,
      MSetRaw ''/a_GET_body'' ''hello'' (60 * Second),
      MSet ''/a_GET'' \<lparr>body = [], ctype = ''text/plain'', cencoding = [], status = 201,
                       exp = 4600, headers = None\<rparr> (60 * Second),
      MRelease \<lparr>body = [], ctype = ''text/plain'', cencoding = [], status = 201,
                exp = 4600, headers = None\<rparr>,
      SetStatus cacheMiss]"
proof -
  let ?cfg = "sample_cfg\<lparr>Storage := True, StoreResponseHeaders := False,
                     ExpirationGenerator := Some (\<lambda>c. 3600 * Second)\<rparr>"
  have k: "key_of ?cfg sample_get = ''/a_GET''"
    by (simp add: key_of_def sample_cfg_def sample_get_def)
  have nx: "Next ?cfg = None" and st: "Storage ?cfg" and ex: "Expiration ?cfg = 60 * Second"
    by (simp_all add: sample_cfg_def)
  have s: "Seconds_uint64 (3600 * Second) = 3600"
    by (simp add: Seconds_uint64_def tdiv_def Second_def)
  have f: "fill_entry ?cfg 1000 zero_entry (snd (sample_next sample_get)) =
      \<lparr>body = ''hello'', ctype = ''text/plain'', cencoding = [], status = 201,
       exp = 4600, headers = None\<rparr>"
    by (simp add: fill_entry_def Let_def expiration_of_def s zero_entry_def sample_next_def
        ContentType_def Peek_def)
       (simp add: HeaderContentType_def HeaderContentEncoding_def)
  show ?thesis
    by (simp add: handler_absent sample_get_method k miss_ok sample_next_fst populate_def nx
        store_entry_log st ex f)
qed

text \<open>
  Claim C4. When the downstream stage, called for a \<open>GET\<close> or \<open>HEAD\<close> request, returns an
  error, the handler returns that error and the context as the downstream stage left it, and
  it calls none of \<open>set\<close>, \<open>setRaw\<close> and \<open>release\<close>: under every key the manager holds
  what it held before, or nothing.
\<close>

theorem downstream_error_is_returned:
  assumes "Method c = MethodGet \<or> Method c = MethodHead"
    and "CallNext (Some err) \<in> set (r_log (New cfg nxt ts m c))"
  shows "r_err (New cfg nxt ts m c) = Some err
       \<and> r_ctx (New cfg nxt ts m c) = snd (nxt c)
       \<and> (\<forall>k e t. MSet k e t \<notin> set (r_log (New cfg nxt ts m c)))
       \<and> (\<forall>k b t. MSetRaw k b t \<notin> set (r_log (New cfg nxt ts m c)))
       \<and> (\<forall>e. MRelease e \<notin> set (r_log (New cfg nxt ts m c)))
       \<and> (\<forall>k. r_mgr (New cfg nxt ts m c) k = m k \<or> r_mgr (New cfg nxt ts m c) k = None)"
proof (cases "Seconds_int (Expiration cfg) < 0")
  case True
  then show ?thesis
    using assms(2) by (auto simp: New_def split: prod.splits)
next
  case False
  let ?key = "key_of cfg c"
  let ?e = "fst (manager_get m ?key ts)"
  have N: "New cfg nxt ts m c = handler cfg nxt ts m c"
    using False by (simp add: New_def)
  consider (stale) "exp ?e \<noteq> 0" "exp ?e \<le> ts" | (hit) "exp ?e \<noteq> 0" "ts < exp ?e"
    | (absent) "exp ?e = 0"
    by fastforce
  then show ?thesis
  proof cases
    case stale
    let ?m2 = "if Storage cfg
               then manager_delete (manager_delete (lapse m ts) ?key) (?key @ ''_body'')
               else manager_delete (lapse m ts) ?key"
    note h = handler_stale [OF assms(1) stale]
    have "CallNext (Some err) \<in> set (r_log (miss cfg nxt ts ?key ?e ?m2 c))"
      using assms(2) by (auto simp: N h split: if_splits)
    from miss_error [OF this] show ?thesis
      using lapse_subset [of m ts] by (simp add: N h logged_def manager_delete_def)
  next
    case hit
    show ?thesis
      using assms(2) by (simp add: N handler_hit [OF assms(1) hit])
  next
    case absent
    note h = handler_absent [OF assms(1) absent]
    have "CallNext (Some err) \<in> set (r_log (miss cfg nxt ts ?key ?e (lapse m ts) c))"
      using assms(2) by (auto simp: N h)
    from miss_error [OF this] show ?thesis
      using lapse_subset [of m ts] by (simp add: N h logged_def)
  qed
qed

theorem downstream_error_is_returned_witness:
  "Method sample_get = MethodGet
   \<and> CallNext (Some ''boom'') \<in> set (r_log (New sample_cfg sample_fail 1000 Map.empty sample_get))
   \<and> r_err (New sample_cfg sample_fail 1000 Map.empty sample_get) = Some ''boom''
   \<and> r_ctx (New sample_cfg sample_fail 1000 Map.empty sample_get) = sample_get
   \<and> (\<forall>k e t. MSet k e t \<notin> set (r_log (New sample_cfg sample_fail 1000 Map.empty sample_get)))
   \<and> (\<forall>k. r_mgr (New sample_cfg sample_fail 1000 Map.empty sample_get) k = None)"
proof -
  have h1: "Method sample_get = MethodGet \<or> Method sample_get = MethodHead"
    by (simp add: sample_get_method)
  have h2: "CallNext (Some ''boom'')
      \<in> set (r_log (New sample_cfg sample_fail 1000 Map.empty sample_get))"
    by (simp add: sample_fail_run)
  have s: "snd (sample_fail sample_get) = sample_get"
    by (simp add: sample_fail_def)
  show ?thesis
    using downstream_error_is_returned [OF h1 h2] h2
    by (simp add: sample_get_method s)
qed

text \<open>
  Claim C5. A request that is served as a hit (its entry has \<open>exp \<noteq> 0\<close> and the timestamp
  is strictly below \<open>exp\<close>) returns \<open>nil\<close>, is marked \<open>hit\<close>, and the handler never calls the
  downstream stage for it.
\<close>

theorem hit_never_calls_downstream:
  assumes "Method c = MethodGet \<or> Method c = MethodHead"
    and "exp (fst (manager_get m (key_of cfg c) ts)) \<noteq> 0"
    and "ts < exp (fst (manager_get m (key_of cfg c) ts))"
  shows "r_err (handler cfg nxt ts m c) = None
       \<and> status_sets (r_log (handler cfg nxt ts m c)) = [cacheHit]
       \<and> (\<forall>x. CallNext x \<notin> set (r_log (handler cfg nxt ts m c)))"
  by (simp add: handler_hit [OF assms])

theorem hit_never_calls_downstream_witness:
  "Method sample_get = MethodGet
   \<and> exp (fst (manager_get sample_mgr (key_of sample_cfg sample_get) 1000)) = 1060
   \<and> r_err (handler sample_cfg sample_fail 1000 sample_mgr sample_get) = None
   \<and> status_sets (r_log (handler sample_cfg sample_fail 1000 sample_mgr sample_get)) = [cacheHit]
   \<and> (\<forall>x. CallNext x \<notin> set (r_log (handler sample_cfg sample_fail 1000 sample_mgr sample_get)))"
proof -
  have h1: "Method sample_get = MethodGet \<or> Method sample_get = MethodHead"
    by (simp add: sample_get_method)
  have h2: "exp (fst (manager_get sample_mgr (key_of sample_cfg sample_get) 1000)) \<noteq> 0"
    by (simp add: sample_get_entry sample_entry_def)
  have h3: "1000 < exp (fst (manager_get sample_mgr (key_of sample_cfg sample_get) 1000))"
    by (simp add: sample_get_entry sample_entry_def)
  show ?thesis
    using hit_never_calls_downstream [OF h1 h2 h3, of sample_fail]
    by (simp add: sample_get_method sample_get_entry sample_entry_def)
qed

text \<open>
  Claim C6. When the entry of a request has \<open>exp \<noteq> 0\<close> and the timestamp has reached
  \<open>exp\<close>, the handler deletes the entry under the key and, with external storage, the
  \<open>_body\<close> key as well, in the same lookup; then it calls the downstream stage, and it
  never marks the request as a hit. When the downstream stage then fails, the manager is left
  without the two keys.
\<close>

theorem stale_entry_deleted_then_miss:
  assumes "Method c = MethodGet \<or> Method c = MethodHead"
    and "exp (fst (manager_get m (key_of cfg c) ts)) \<noteq> 0"
    and "exp (fst (manager_get m (key_of cfg c) ts)) \<le> ts"
  shows "(\<exists>rest. r_log (handler cfg nxt ts m c) =
           [MGet (key_of cfg c), MDelete (key_of cfg c)]
           @ (if Storage cfg then [MDelete (key_of cfg c @ ''_body'')] else [])
           @ CallNext (fst (nxt c)) # rest)
       \<and> SetStatus cacheHit \<notin> set (r_log (handler cfg nxt ts m c))
       \<and> (fst (nxt c) \<noteq> None \<longrightarrow>
            r_mgr (handler cfg nxt ts m c) (key_of cfg c) = None
          \<and> (Storage cfg \<longrightarrow> r_mgr (handler cfg nxt ts m c) (key_of cfg c @ ''_body'') = None))"
proof -
  let ?key = "key_of cfg c"
  let ?m2 = "if Storage cfg
             then manager_delete (manager_delete (lapse m ts) ?key) (?key @ ''_body'')
             else manager_delete (lapse m ts) ?key"
  note h = handler_stale [OF assms]
  obtain rest where
    "r_log (miss cfg nxt ts ?key (fst (manager_get m ?key ts)) ?m2 c) = CallNext (fst (nxt c)) # rest"
    using miss_log_head by blast
  then have a: "(\<exists>rest. r_log (handler cfg nxt ts m c) =
           [MGet ?key, MDelete ?key] @ (if Storage cfg then [MDelete (?key @ ''_body'')] else [])
           @ CallNext (fst (nxt c)) # rest)
       \<and> SetStatus cacheHit \<notin> set (r_log (handler cfg nxt ts m c))"
    using miss_no_hit [of cfg nxt ts ?key "fst (manager_get m ?key ts)" ?m2 c]
    by (simp add: h)
  have b: "r_mgr (handler cfg nxt ts m c) ?key = None
          \<and> (Storage cfg \<longrightarrow> r_mgr (handler cfg nxt ts m c) (?key @ ''_body'') = None)"
    if "fst (nxt c) \<noteq> None"
  proof -
    from that obtain err where "fst (nxt c) = Some err"
      by blast
    then have "r_mgr (handler cfg nxt ts m c) = ?m2"
      by (simp add: h miss_failed)
    then show ?thesis
      by (simp add: manager_delete_def)
  qed
  from a b show ?thesis
    by blast
qed

theorem stale_entry_deleted_then_miss_witness:
  "exp (fst (manager_get sample_mgr (key_of sample_cfg sample_get) 1060)) = 1060
   \<and> (\<exists>rest. r_log (handler (sample_cfg\<lparr>Storage := True\<rparr>) sample_next 1060 sample_mgr sample_get) =
        [MGet ''/a_GET'', MDelete ''/a_GET'', MDelete ''/a_GET_body'', CallNext None] @ rest)
   \<and> SetStatus cacheHit
        \<notin> set (r_log (handler (sample_cfg\<lparr>Storage := True\<rparr>) sample_next 1060 sample_mgr sample_get))"
proof -
  let ?cfg = "sample_cfg\<lparr>Storage := True\<rparr>"
  have k: "key_of ?cfg sample_get = ''/a_GET''"
    by (simp add: key_of_def sample_cfg_def sample_get_def)
  have e: "fst (manager_get sample_mgr ''/a_GET'' 1060) = sample_entry"
    by (simp add: manager_get_def lapse_def held_sample sample_mgr_def)
  have n: "fst (sample_next sample_get) = None"
    by (simp add: sample_next_def)
  have h1: "Method sample_get = MethodGet \<or> Method sample_get = MethodHead"
    by (simp add: sample_get_method)
  have h2: "exp (fst (manager_get sample_mgr (key_of ?cfg sample_get) 1060)) \<noteq> 0"
    by (simp add: k e sample_entry_def)
  have h3: "exp (fst (manager_get sample_mgr (key_of ?cfg sample_get) 1060)) \<le> 1060"
    by (simp add: k e sample_entry_def)
  show ?thesis
    using stale_entry_deleted_then_miss [OF h1 h2 h3, of sample_next]
    by (simp add: k n sample_get_entry sample_entry_def)
qed

text \<open>
  Claim C7, as the code has it. With \<open>CacheControl\<close> enabled, and the status header not
  configured to be a spelling of \<open>Cache-Control\<close>, the response of a hit carries
  \<open>Cache-Control\<close> with the value \<open>public, max-age=\<close> followed by \<open>exp - ts\<close> in decimal.
  On a hit \<open>ts < exp\<close>, so the subtraction of the two unsigned numbers does not wrap and the
  result is positive. A later hit with the same key, at a timestamp that is not smaller, finds
  the same entry and carries a \<open>max-age\<close> that is not larger.
\<close>

theorem hit_max_age:
  assumes "Method c = MethodGet \<or> Method c = MethodHead"
    and "exp (fst (manager_get m (key_of cfg c) ts)) \<noteq> 0"
    and "ts < exp (fst (manager_get m (key_of cfg c) ts))"
    and "CacheControl cfg"
    and "normalizeHeaderKey (CacheHeader cfg) \<noteq> HeaderCacheControl"
  shows "Header (Response (r_ctx (handler cfg nxt ts m c))) HeaderCacheControl =
           Some (''public, max-age='' @ FormatUint (exp (fst (manager_get m (key_of cfg c) ts)) - ts))
       \<and> SetCacheControl
           (''public, max-age='' @ FormatUint (exp (fst (manager_get m (key_of cfg c) ts)) - ts))
           \<in> set (r_log (handler cfg nxt ts m c))
       \<and> unat ts \<le> unat (exp (fst (manager_get m (key_of cfg c) ts)))
       \<and> unat (exp (fst (manager_get m (key_of cfg c) ts)) - ts)
           = unat (exp (fst (manager_get m (key_of cfg c) ts))) - unat ts
       \<and> 0 < unat (exp (fst (manager_get m (key_of cfg c) ts)) - ts)
       \<and> (\<forall>ts' nxt' c'. ts \<le> ts'
             \<and> (Method c' = MethodGet \<or> Method c' = MethodHead)
             \<and> key_of cfg c' = key_of cfg c
             \<and> exp (fst (manager_get (r_mgr (handler cfg nxt ts m c)) (key_of cfg c) ts')) \<noteq> 0
             \<and> ts' < exp (fst (manager_get (r_mgr (handler cfg nxt ts m c)) (key_of cfg c) ts'))
             \<longrightarrow>
             fst (manager_get (r_mgr (handler cfg nxt ts m c)) (key_of cfg c) ts')
               = fst (manager_get m (key_of cfg c) ts)
             \<and> Header (Response (r_ctx (handler cfg nxt' ts' (r_mgr (handler cfg nxt ts m c)) c')))
                 HeaderCacheControl =
                 Some (''public, max-age=''
                       @ FormatUint (exp (fst (manager_get m (key_of cfg c) ts)) - ts'))
             \<and> unat (exp (fst (manager_get m (key_of cfg c) ts)) - ts')
                 \<le> unat (exp (fst (manager_get m (key_of cfg c) ts)) - ts))"
proof -
  let ?key = "key_of cfg c"
  let ?e = "fst (manager_get m ?key ts)"
  let ?r = "handler cfg nxt ts m c"
  note H = handler_hit [OF assms(1,2,3)]
  have a: "Header (Response (r_ctx ?r)) HeaderCacheControl =
      Some (''public, max-age='' @ FormatUint (exp ?e - ts))"
    using assms(4,5) by (simp add: H serve_hit_cache_control)
  have b: "SetCacheControl (''public, max-age='' @ FormatUint (exp ?e - ts)) \<in> set (r_log ?r)"
    using assms(4) by (simp add: H serve_hit_log)
  have le: "ts \<le> exp ?e"
    using assms(3) by simp
  have c: "unat ts \<le> unat (exp ?e)"
    using le by (simp add: word_le_nat_alt)
  have d: "unat (exp ?e - ts) = unat (exp ?e) - unat ts"
    using le by (rule unat_sub)
  have e: "0 < unat (exp ?e - ts)"
    using assms(3) d by (simp add: word_less_nat_alt)
  from manager_get_exp [OF assms(2)] obtain t0 ttl where
    mk: "m ?key = Some (Meta ?e, t0, ttl)"
    by blast
  have f: "fst (manager_get (r_mgr ?r) ?key ts') = ?e
         \<and> Header (Response (r_ctx (handler cfg nxt' ts' (r_mgr ?r) c'))) HeaderCacheControl =
             Some (''public, max-age='' @ FormatUint (exp ?e - ts'))
         \<and> unat (exp ?e - ts') \<le> unat (exp ?e - ts)"
    if t: "ts \<le> ts'" "Method c' = MethodGet \<or> Method c' = MethodHead"
      "key_of cfg c' = ?key"
      "exp (fst (manager_get (r_mgr ?r) ?key ts')) \<noteq> 0"
      "ts' < exp (fst (manager_get (r_mgr ?r) ?key ts'))" for ts' nxt' c'
  proof -
    have sub: "r_mgr ?r ?key = m ?key \<or> r_mgr ?r ?key = None"
      using lapse_subset [of m ts ?key] by (simp add: H)
    from manager_get_exp [OF t(4)] sub mk
    have same: "fst (manager_get (r_mgr ?r) ?key ts') = ?e"
      by auto
    have H': "handler cfg nxt' ts' (r_mgr ?r) c' =
        logged [MGet ?key] (serve_hit cfg ts' ?key ?e (lapse (r_mgr ?r) ts') c')"
      using handler_hit [of c' "r_mgr ?r" cfg ts' nxt'] t same by simp
    have lt: "ts' < exp ?e"
      using t(5) same by simp
    have "unat (exp ?e - ts') = unat (exp ?e) - unat ts'"
      using lt by (simp add: unat_sub)
    moreover have "unat ts \<le> unat ts'"
      using t(1) by (simp add: word_le_nat_alt)
    ultimately have "unat (exp ?e - ts') \<le> unat (exp ?e - ts)"
      using d by simp
    moreover have "Header (Response (r_ctx (handler cfg nxt' ts' (r_mgr ?r) c'))) HeaderCacheControl
        = Some (''public, max-age='' @ FormatUint (exp ?e - ts'))"
      using assms(4,5) by (simp add: H' serve_hit_cache_control)
    ultimately show ?thesis
      using same by simp
  qed
  from a b c d e f show ?thesis
    by blast
qed

theorem hit_max_age_witness:
  "exp (fst (manager_get sample_mgr (key_of sample_cfg sample_get) 1000)) = 1060
   \<and> CacheControl sample_cfg
   \<and> normalizeHeaderKey (CacheHeader sample_cfg) = ''X-Cache''
   \<and> SetCacheControl ''public, max-age=60''
       \<in> set (r_log (handler sample_cfg sample_fail 1000 sample_mgr sample_get))
   \<and> Header (Response (r_ctx (handler sample_cfg sample_fail 1000 sample_mgr sample_get)))
       ''Cache-Control'' = Some ''public, max-age=60''"
proof -
  have h1: "Method sample_get = MethodGet \<or> Method sample_get = MethodHead"
    by (simp add: sample_get_method)
  have h2: "exp (fst (manager_get sample_mgr (key_of sample_cfg sample_get) 1000)) \<noteq> 0"
    by (simp add: sample_get_entry sample_entry_def)
  have h3: "1000 < exp (fst (manager_get sample_mgr (key_of sample_cfg sample_get) 1000))"
    by (simp add: sample_get_entry sample_entry_def)
  have h4: "CacheControl sample_cfg"
    by (simp add: sample_cfg_def)
  have nk: "normalizeHeaderKey (CacheHeader sample_cfg) = ''X-Cache''"
    by (simp add: sample_cfg_def)
  have h5: "normalizeHeaderKey (CacheHeader sample_cfg) \<noteq> HeaderCacheControl"
    by (simp add: nk HeaderCacheControl_def)
  have v: "exp sample_entry - 1000 = 60"
    by (simp add: sample_entry_def)
  show ?thesis
    using hit_max_age [OF h1 h2 h3 h4 h5, of sample_fail] h4 nk
    by (simp add: sample_get_entry v FormatUint_60 HeaderCacheControl_def)
       (simp add: sample_entry_def)
qed

text \<open>
  Claim C7, as stated, fails: with \<open>Cache-Control\<close> configured as the status header, the
  response of a hit carries \<open>Cache-Control: hit\<close> and no \<open>max-age\<close>, although the handler
  had set it first.
\<close>

theorem hit_without_max_age:
  "CacheControl (sample_cfg\<lparr>CacheHeader := ''Cache-Control''\<rparr>)
   \<and> exp (fst (manager_get sample_mgr
        (key_of (sample_cfg\<lparr>CacheHeader := ''Cache-Control''\<rparr>) sample_get) 1000)) = 1060
   \<and> status_sets (r_log (handler (sample_cfg\<lparr>CacheHeader := ''Cache-Control''\<rparr>) sample_fail 1000
        sample_mgr sample_get)) = [cacheHit]
   \<and> Header (Response (r_ctx (handler (sample_cfg\<lparr>CacheHeader := ''Cache-Control''\<rparr>) sample_fail
        1000 sample_mgr sample_get))) ''Cache-Control'' = Some ''hit''"
proof -
  let ?cfg = "sample_cfg\<lparr>CacheHeader := ''Cache-Control''\<rparr>"
  have k: "key_of ?cfg sample_get = ''/a_GET''"
    by (simp add: key_of_def sample_cfg_def sample_get_def)
  have e: "fst (manager_get sample_mgr ''/a_GET'' 1000) = sample_entry"
    by (simp add: manager_get_def lapse_def held_sample sample_mgr_def)
  have cc: "CacheControl ?cfg" and ch: "CacheHeader ?cfg = ''Cache-Control''"
    by (simp_all add: sample_cfg_def)
  have can: "normalizeHeaderKey ''Cache-Control'' = ''Cache-Control''"
    by code_simp
  have H: "handler ?cfg sample_fail 1000 sample_mgr sample_get =
      logged [MGet ''/a_GET''] (serve_hit ?cfg 1000 ''/a_GET'' sample_entry (lapse sample_mgr 1000)
        sample_get)"
    using handler_hit [of sample_get sample_mgr ?cfg 1000 sample_fail]
    by (simp add: k e sample_get_method sample_entry_def)
  have "Header (Response (r_ctx (handler ?cfg sample_fail 1000 sample_mgr sample_get)))
      (normalizeHeaderKey (CacheHeader ?cfg)) = Some cacheHit"
    unfolding H r_ctx_logged by (rule serve_hit_header)
  then have h: "Header (Response (r_ctx (handler ?cfg sample_fail 1000 sample_mgr sample_get)))
      ''Cache-Control'' = Some ''hit''"
    by (simp add: ch can cacheHit_def)
  have s: "status_sets (r_log (handler ?cfg sample_fail 1000 sample_mgr sample_get)) = [cacheHit]"
    by (simp add: H)
  have x: "exp (fst (manager_get sample_mgr (key_of ?cfg sample_get) 1000)) = 1060"
    by (simp add: k e sample_entry_def)
  from cc x s h show ?thesis
    by blast
qed



text \<open>
  Claim C9. When the exclusion predicate, called by the handler, returns \<open>true\<close>, the handler
  marks the response \<open>unreachable\<close> and calls neither \<open>set\<close> nor \<open>setRaw\<close>; a later
  \<open>GET\<close> or \<open>HEAD\<close> request with the same key calls the downstream stage again and is not
  marked \<open>hit\<close>.
\<close>

theorem excluded_response_not_stored:
  assumes "CallExclude True \<in> set (r_log (New cfg nxt ts m c))"
  shows "status_sets (r_log (New cfg nxt ts m c)) = [cacheUnreachable]
       \<and> Header (Response (r_ctx (New cfg nxt ts m c))) (normalizeHeaderKey (CacheHeader cfg)) = Some cacheUnreachable
       \<and> (\<forall>k e t. MSet k e t \<notin> set (r_log (New cfg nxt ts m c)))
       \<and> (\<forall>k b t. MSetRaw k b t \<notin> set (r_log (New cfg nxt ts m c)))
       \<and> (\<forall>c2 nxt2 ts2.
             (Method c2 = MethodGet \<or> Method c2 = MethodHead) \<and> key_of cfg c2 = key_of cfg c \<longrightarrow>
             (\<exists>rest. r_log (New cfg nxt2 ts2 (r_mgr (New cfg nxt ts m c)) c2) =
                MGet (key_of cfg c) # CallNext (fst (nxt2 c2)) # rest)
             \<and> SetStatus cacheHit \<notin> set (r_log (New cfg nxt2 ts2 (r_mgr (New cfg nxt ts m c)) c2)))"
proof -
  let ?r = "New cfg nxt ts m c"
  let ?key = "key_of cfg c"
  have neg: "\<not> Seconds_int (Expiration cfg) < 0"
    using assms by (auto simp: New_def split: prod.splits if_splits)
  have N: "New cfg = handler cfg"
    by (rule New_handler [OF neg])
  have main: "status_sets (r_log ?r) = [cacheUnreachable]
       \<and> Header (Response (r_ctx ?r)) (normalizeHeaderKey (CacheHeader cfg)) = Some cacheUnreachable
       \<and> (\<forall>k e t. MSet k e t \<notin> set (r_log ?r))
       \<and> (\<forall>k b t. MSetRaw k b t \<notin> set (r_log ?r))
       \<and> (\<forall>ts2. exp (fst (manager_get (r_mgr ?r) ?key ts2)) = 0)"
  proof (cases rule: New_cases [where cfg=cfg and nxt=nxt and ts=ts and m=m and c=c])
    case bypass
    with assms show ?thesis by simp
  next
    case other
    with assms show ?thesis by (simp add: handler_other)
  next
    case stale
    note h = handler_stale [OF stale(2,3,4)]
    let ?m2 = "if Storage cfg
       then manager_delete (manager_delete (lapse m ts) ?key) (?key @ ''_body'')
       else manager_delete (lapse m ts) ?key"
    have "CallExclude True \<in> set (r_log (miss cfg nxt ts ?key (fst (manager_get m ?key ts)) ?m2 c))"
      using assms by (auto simp: stale(1) h split: if_splits)
    from miss_excluded [OF this] show ?thesis
      by (simp add: stale(1) h logged_def manager_get_def lapse_def manager_delete_def)
  next
    case hit
    with assms show ?thesis by (simp add: handler_hit)
  next
    case absent
    note h = handler_absent [OF absent(2,3)]
    have "CallExclude True
        \<in> set (r_log (miss cfg nxt ts ?key (fst (manager_get m ?key ts)) (lapse m ts) c))"
      using assms by (auto simp: absent(1) h)
    from miss_excluded [OF this] show ?thesis
      using manager_get_absent_later [OF absent(3)] by (simp add: absent(1) h logged_def)
  qed
  have later: "(\<exists>rest. r_log (New cfg nxt2 ts2 (r_mgr ?r) c2) = MGet ?key # CallNext (fst (nxt2 c2)) # rest)
             \<and> SetStatus cacheHit \<notin> set (r_log (New cfg nxt2 ts2 (r_mgr ?r) c2))"
    if t: "Method c2 = MethodGet \<or> Method c2 = MethodHead" "key_of cfg c2 = ?key" for c2 nxt2 ts2
  proof -
    let ?e2 = "fst (manager_get (r_mgr ?r) ?key ts2)"
    have z: "exp (fst (manager_get (r_mgr ?r) (key_of cfg c2) ts2)) = 0"
      using main t(2) by simp
    have H: "New cfg nxt2 ts2 (r_mgr ?r) c2 =
        logged [MGet ?key] (miss cfg nxt2 ts2 ?key ?e2 (lapse (r_mgr ?r) ts2) c2)"
      using handler_absent [OF t(1) z, of nxt2] t(2) by (simp add: N)
    obtain rest where
      "r_log (miss cfg nxt2 ts2 ?key ?e2 (lapse (r_mgr ?r) ts2) c2) = CallNext (fst (nxt2 c2)) # rest"
      using miss_log_head by blast
    then show ?thesis
      using miss_no_hit [of cfg nxt2 ts2 ?key ?e2 "lapse (r_mgr ?r) ts2" c2]
      by (simp add: H)
  qed
  from main later show ?thesis
    by blast
qed

theorem excluded_response_not_stored_witness:
  "CallExclude True
     \<in> set (r_log (New (sample_cfg\<lparr>Next := Some (\<lambda>c. True)\<rparr>) sample_next 1000 Map.empty sample_get))
   \<and> status_sets (r_log (New (sample_cfg\<lparr>Next := Some (\<lambda>c. True)\<rparr>) sample_next 1000 Map.empty
        sample_get)) = [cacheUnreachable]
   \<and> (\<forall>k e t. MSet k e t
        \<notin> set (r_log (New (sample_cfg\<lparr>Next := Some (\<lambda>c. True)\<rparr>) sample_next 1000 Map.empty
              sample_get)))
   \<and> SetStatus cacheHit \<notin> set (r_log (New (sample_cfg\<lparr>Next := Some (\<lambda>c. True)\<rparr>) sample_next 2000
        (r_mgr (New (sample_cfg\<lparr>Next := Some (\<lambda>c. True)\<rparr>) sample_next 1000 Map.empty sample_get))
        sample_get))"
proof -
  let ?cfg = "sample_cfg\<lparr>Next := Some (\<lambda>c. True)\<rparr>"
  have N: "New ?cfg = handler ?cfg"
    by (rule New_handler) (simp add: sample_cfg_def Seconds_int_sample)
  have k: "key_of ?cfg sample_get = ''/a_GET''"
    by (simp add: key_of_def sample_cfg_def sample_get_def)
  have h: "CallExclude True \<in> set (r_log (New ?cfg sample_next 1000 Map.empty sample_get))"
    by (simp add: N handler_absent sample_get_method k miss_ok sample_next_fst populate_def)
  have t: "(Method sample_get = MethodGet \<or> Method sample_get = MethodHead)
      \<and> key_of ?cfg sample_get = key_of ?cfg sample_get"
    by (simp add: sample_get_method)
  from excluded_response_not_stored [OF h] t h show ?thesis
    by blast
qed




end
